theory Spec2Isabelle
  imports Main "HOL-Library.Multiset" "HOL-Library.Sublist"
begin

section \<open>Python values and errors\<close>

text \<open>
  The exceptions the modelled code can raise. \<open>HTTPError\<close> stands for whatever
  \<open>requests\<close> raises (\<open>raise_for_status\<close>, timeouts, connection errors) and
  \<open>ExcelError\<close> for whatever \<open>pandas.read_excel\<close> raises on a file it cannot parse.
\<close>

datatype error = ValueError | TypeError | AttributeError | HTTPError | ExcelError
  | FileNotFoundError

text \<open>
  A cell of the parsed spreadsheet, as \<open>watch.get(column)\<close> returns it: text, an
  integer, or \<open>None\<close> when the column is missing. Floating-point cells are not modelled.
  Strings are byte strings (UTF-8): every operation the code applies to them (equality,
  splitting at the ASCII full stop, deleting non-digits) gives the same result on the
  UTF-8 bytes as on the code points.
\<close>

datatype cell = CNone | CInt int | CStr string

definition is_digit :: "char \<Rightarrow> bool" where
  "is_digit c = (c \<in> set ''0123456789'')"

definition digit_char :: "nat \<Rightarrow> char" where
  "digit_char d = ''0123456789'' ! d"

function nat_digits :: "nat \<Rightarrow> string" where
  "nat_digits n = (if n < 10 then [digit_char n]
                   else nat_digits (n div 10) @ [digit_char (n mod 10)])"
  by pat_completeness auto
termination
  by (relation "measure id") auto

declare nat_digits.simps [simp del]

text \<open>Python's \<open>str(x)\<close> on a cell.\<close>

fun py_str :: "cell \<Rightarrow> string" where
  "py_str CNone = ''None''"
| "py_str (CInt n) = (if n < 0 then CHR ''-'' # nat_digits (nat (- n)) else nat_digits (nat n))"
| "py_str (CStr s) = s"

text \<open>
  Python's \<open>int(x)\<close>. On text: surrounding ASCII whitespace is stripped, one sign is
  allowed, then decimal digits, where single underscores may stand between digits;
  anything else raises \<open>ValueError\<close>. On \<open>None\<close> it raises \<open>TypeError\<close>.
  (Non-ASCII digits and spaces, and the interpreter's limit on the number of digits,
  are not modelled.)
\<close>

definition is_space :: "char \<Rightarrow> bool" where
  "is_space c = (c \<in> set [CHR 0x09, CHR 0x0A, CHR 0x0B, CHR 0x0C, CHR 0x0D,
                           CHR 0x1C, CHR 0x1D, CHR 0x1E, CHR 0x1F, CHR 0x20])"

definition strip :: "string \<Rightarrow> string" where
  "strip s = rev (dropWhile is_space (rev (dropWhile is_space s)))"

definition digit_val :: "char \<Rightarrow> nat" where
  "digit_val c = of_char c - 48"

fun digits_value :: "string \<Rightarrow> nat \<Rightarrow> nat option" where
  "digits_value [] acc = Some acc"
| "digits_value [c] acc = (if is_digit c then Some (10 * acc + digit_val c) else None)"
| "digits_value (c # d # ds) acc =
     (if is_digit c then digits_value (d # ds) (10 * acc + digit_val c)
      else if c = CHR ''_'' \<and> is_digit d then digits_value ds (10 * acc + digit_val d)
      else None)"

definition unsigned_value :: "string \<Rightarrow> nat option" where
  "unsigned_value s =
     (case s of [] \<Rightarrow> None
      | c # cs \<Rightarrow> if is_digit c then digits_value cs (digit_val c) else None)"

definition int_of_str :: "string \<Rightarrow> error + int" where
  "int_of_str s =
     (let t = strip s;
          r = (case t of [] \<Rightarrow> None
               | c # cs \<Rightarrow>
                   if c = CHR ''-'' then map_option (\<lambda>n. - int n) (unsigned_value cs)
                   else if c = CHR ''+'' then map_option int (unsigned_value cs)
                   else map_option int (unsigned_value t))
      in case r of None \<Rightarrow> Inl ValueError | Some n \<Rightarrow> Inr n)"

fun py_int :: "cell \<Rightarrow> error + int" where
  "py_int CNone = Inl TypeError"
| "py_int (CInt n) = Inr n"
| "py_int (CStr s) = int_of_str s"

section \<open>The feed and the payloads\<close>

text \<open>
  One row of the supplier feed: the columns the code reads, \<open>Kod\<close> (the code),
  \<open>Kolichestvo\<close> (the quantity) and \<open>Tsena\<close> (the price); the source spells the
  column names in Cyrillic.
\<close>

record watch =
  Kod :: cell
  Kolichestvo :: cell
  Tsena :: cell

text \<open>Ozon payloads (seller.py): \<open>{"offer_id", "stock"}\<close> and the price object.\<close>

record ozon_stock =
  offer_id :: string
  stock :: int

record ozon_price =
  auto_action_enabled :: string
  currency_code :: string
  price_offer_id :: string
  old_price :: string
  price_text :: string

text \<open>Yandex payloads (market.py).\<close>

record market_item =
  item_count :: int
  item_type :: string
  updatedAt :: string

record market_stock =
  sku :: string
  warehouseId :: string
  stock_items :: "market_item list"

record market_price =
  price_id :: string
  price_value :: int
  currencyId :: string

section \<open>seller.py: price_conversion and divide\<close>

text \<open>
  \<open>str.split(sep)\<close> for a one-character separator: the pieces between the
  separators, never an empty list.
\<close>

fun split_chr :: "char \<Rightarrow> string \<Rightarrow> string list" where
  "split_chr sep [] = [[]]"
| "split_chr sep (c # cs) =
     (if c = sep then [] # split_chr sep cs
      else (case split_chr sep cs of
              [] \<Rightarrow> [[c]]
            | p # ps \<Rightarrow> (c # p) # ps))"

text \<open>
  \<open>re.sub("[^0-9]", "", price.split(".")[0])\<close>: the piece before the first full
  stop, with every character outside \<open>0-9\<close> deleted. The index \<open>[0]\<close> raises
  \<open>IndexError\<close> on an empty list in Python; \<open>split_chr\<close> never returns one
  (lemma \<open>split_chr_not_Nil\<close>), so the model takes the head.
\<close>

definition price_conversion :: "string \<Rightarrow> string" where
  "price_conversion price = filter is_digit (hd (split_chr (CHR ''.'') price))"

text \<open>
  \<open>divide\<close> is a generator: \<open>for i in range(0, len(lst), n): yield lst[i : i + n]\<close>.
  The model returns the chunks it yields and the exception that ends it, if any.
  \<open>range\<close> raises \<open>ValueError\<close> for step 0 (at the first \<open>next\<close>, before any
  chunk), and is empty for a negative step, since the start 0 is not above the stop.
\<close>

function divide_from :: "'a list \<Rightarrow> nat \<Rightarrow> nat \<Rightarrow> 'a list list" where
  "divide_from lst n i =
     (if n = 0 \<or> length lst \<le> i then []
      else take n (drop i lst) # divide_from lst n (i + n))"
  by pat_completeness auto
termination
  by (relation "measure (\<lambda>(lst, n, i). length lst - i)") auto

declare divide_from.simps [simp del]

definition divide :: "'a list \<Rightarrow> int \<Rightarrow> 'a list list \<times> error option" where
  "divide lst n =
     (if n = 0 then ([], Some ValueError)
      else if n < 0 then ([], None)
      else (divide_from lst (nat n) 0, None))"

section \<open>seller.py: create_stocks and create_prices\<close>

text \<open>
  Both functions receive the list object \<open>offer_ids\<close>; the model threads its contents
  through the call and returns them beside the result, so that what the call leaves in
  the list is visible. An exception ends the call with the list as it is at that point.
\<close>

fun stocks_loop :: "watch list \<Rightarrow> string list \<Rightarrow> ozon_stock list
                      \<Rightarrow> (error + ozon_stock list) \<times> string list" where
  "stocks_loop [] offer_ids stocks = (Inr stocks, offer_ids)"
| "stocks_loop (watch # rest) offer_ids stocks =
     (if py_str (Kod watch) \<in> set offer_ids then
        (let cnt = py_str (Kolichestvo watch);
             st = (if cnt = ''>10'' then Inr 100
                   else if cnt = ''1'' then Inr 0
                   else py_int (Kolichestvo watch))
         in case st of
              Inl e \<Rightarrow> (Inl e, offer_ids)
            | Inr q \<Rightarrow>
                stocks_loop rest (remove1 (py_str (Kod watch)) offer_ids)
                  (stocks @ [\<lparr>offer_id = py_str (Kod watch), stock = q\<rparr>]))
      else stocks_loop rest offer_ids stocks)"

definition create_stocks :: "watch list \<Rightarrow> string list
                              \<Rightarrow> (error + ozon_stock list) \<times> string list" where
  "create_stocks watch_remnants offer_ids =
     (case stocks_loop watch_remnants offer_ids [] of
        (Inl e, ids) \<Rightarrow> (Inl e, ids)
      | (Inr stocks, ids) \<Rightarrow>
          (Inr (stocks @ map (\<lambda>i. \<lparr>offer_id = i, stock = 0\<rparr>) ids), ids))"

text \<open>
  \<open>price_conversion(watch.get(...))\<close> calls \<open>.split\<close> on the cell: a cell that is
  not text raises \<open>AttributeError\<close>.
\<close>

fun prices_loop :: "watch list \<Rightarrow> string list \<Rightarrow> ozon_price list
                      \<Rightarrow> (error + ozon_price list) \<times> string list" where
  "prices_loop [] offer_ids prices = (Inr prices, offer_ids)"
| "prices_loop (watch # rest) offer_ids prices =
     (if py_str (Kod watch) \<in> set offer_ids then
        (case Tsena watch of
           CStr s \<Rightarrow>
             prices_loop rest offer_ids
               (prices @ [\<lparr>auto_action_enabled = ''UNKNOWN'', currency_code = ''RUB'',
                           price_offer_id = py_str (Kod watch), old_price = ''0'',
                           price_text = price_conversion s\<rparr>])
         | _ \<Rightarrow> (Inl AttributeError, offer_ids))
      else prices_loop rest offer_ids prices)"

definition create_prices :: "watch list \<Rightarrow> string list
                              \<Rightarrow> (error + ozon_price list) \<times> string list" where
  "create_prices watch_remnants offer_ids = prices_loop watch_remnants offer_ids []"

section \<open>market.py: create_stocks and create_prices\<close>

text \<open>
  The Yandex \<open>create_stocks\<close> reads the clock once (\<open>datetime.utcnow()\<close>); the
  reading is the parameter \<open>date\<close>.
\<close>

definition market_entry :: "string \<Rightarrow> string \<Rightarrow> string \<Rightarrow> int \<Rightarrow> market_stock" where
  "market_entry warehouse_id date s q =
     \<lparr>sku = s, warehouseId = warehouse_id,
      stock_items = [\<lparr>item_count = q, item_type = ''FIT'', updatedAt = date\<rparr>]\<rparr>"

fun market_stocks_loop :: "watch list \<Rightarrow> string list \<Rightarrow> string \<Rightarrow> string \<Rightarrow> market_stock list
                      \<Rightarrow> (error + market_stock list) \<times> string list" where
  "market_stocks_loop [] offer_ids warehouse_id date stocks = (Inr stocks, offer_ids)"
| "market_stocks_loop (watch # rest) offer_ids warehouse_id date stocks =
     (if py_str (Kod watch) \<in> set offer_ids then
        (let cnt = py_str (Kolichestvo watch);
             st = (if cnt = ''>10'' then Inr 100
                   else if cnt = ''1'' then Inr 0
                   else py_int (Kolichestvo watch))
         in case st of
              Inl e \<Rightarrow> (Inl e, offer_ids)
            | Inr q \<Rightarrow>
                market_stocks_loop rest (remove1 (py_str (Kod watch)) offer_ids)
                  warehouse_id date
                  (stocks @ [market_entry warehouse_id date (py_str (Kod watch)) q]))
      else market_stocks_loop rest offer_ids warehouse_id date stocks)"

definition market_create_stocks :: "watch list \<Rightarrow> string list \<Rightarrow> string \<Rightarrow> string
                              \<Rightarrow> (error + market_stock list) \<times> string list" where
  "market_create_stocks watch_remnants offer_ids warehouse_id date =
     (case market_stocks_loop watch_remnants offer_ids warehouse_id date [] of
        (Inl e, ids) \<Rightarrow> (Inl e, ids)
      | (Inr stocks, ids) \<Rightarrow>
          (Inr (stocks @ map (\<lambda>i. market_entry warehouse_id date i 0) ids), ids))"

fun market_prices_loop :: "watch list \<Rightarrow> string list \<Rightarrow> market_price list
                      \<Rightarrow> (error + market_price list) \<times> string list" where
  "market_prices_loop [] offer_ids prices = (Inr prices, offer_ids)"
| "market_prices_loop (watch # rest) offer_ids prices =
     (if py_str (Kod watch) \<in> set offer_ids then
        (case Tsena watch of
           CStr s \<Rightarrow>
             (case py_int (CStr (price_conversion s)) of
                Inl e \<Rightarrow> (Inl e, offer_ids)
              | Inr v \<Rightarrow>
                  market_prices_loop rest offer_ids
                    (prices @ [\<lparr>price_id = py_str (Kod watch), price_value = v,
                                currencyId = ''RUR''\<rparr>]))
         | _ \<Rightarrow> (Inl AttributeError, offer_ids))
      else market_prices_loop rest offer_ids prices)"

definition market_create_prices :: "watch list \<Rightarrow> string list
                              \<Rightarrow> (error + market_price list) \<times> string list" where
  "market_create_prices watch_remnants offer_ids = market_prices_loop watch_remnants offer_ids []"

text \<open>
  The UTF-8 bytes of the Cyrillic currency word in the docstring's example price
  (\<open>5'990.00\<close>, a space, the word, a full stop).
\<close>

definition rub :: string where
  "rub = [CHR 0xD1, CHR 0x80, CHR 0xD1, CHR 0x83, CHR 0xD0, CHR 0xB1]"

section \<open>Example inputs\<close>

text \<open>
  The feed of the specification's reconciliation example: code A with quantity
  \<open>>10\<close> and price \<open>100.00\<close>, code B with quantity \<open>1\<close> and price \<open>50.00\<close>.
\<close>

definition example_feed :: "watch list" where
  "example_feed =
     [\<lparr>Kod = CStr ''A'', Kolichestvo = CStr ''>10'', Tsena = CStr ''100.00''\<rparr>,
      \<lparr>Kod = CStr ''B'', Kolichestvo = CStr ''1'', Tsena = CStr ''50.00''\<rparr>]"

text \<open>A feed in which two records carry the code A.\<close>

definition dup_feed :: "watch list" where
  "dup_feed =
     [\<lparr>Kod = CStr ''A'', Kolichestvo = CStr ''5'', Tsena = CStr ''100.00''\<rparr>,
      \<lparr>Kod = CStr ''A'', Kolichestvo = CStr ''7'', Tsena = CStr ''200.00''\<rparr>]"


section \<open>Properties of price_conversion\<close>

lemma split_chr_not_Nil: "split_chr sep s \<noteq> []"
  by (induction s) (auto split: list.splits)

lemma hd_split_chr: "hd (split_chr sep s) = takeWhile (\<lambda>c. c \<noteq> sep) s"
  by (induction s) (auto split: list.splits simp: split_chr_not_Nil)

lemma price_conversion_takeWhile:
  "price_conversion s = filter is_digit (takeWhile (\<lambda>c. c \<noteq> CHR ''.'') s)"
  by (simp add: price_conversion_def hd_split_chr)

text \<open>
  C5. For every string, \<open>price_conversion\<close> returns the part before the first full
  stop with every character that is not a decimal digit removed; a string without a full
  stop is taken whole; the fraction is cut off, not rounded. The three examples of the
  specification evaluate as stated.
\<close>

theorem price_conversion_integer_part:
  "price_conversion s = filter is_digit (takeWhile (\<lambda>c. c \<noteq> CHR ''.'') s) \<and>
   (CHR ''.'' \<notin> set s \<longrightarrow> price_conversion s = filter is_digit s) \<and>
   price_conversion (''5'' @ [CHR 0x27] @ ''990.00 '' @ rub @ ''.'') = ''5990'' \<and>
   price_conversion ''123'' = ''123'' \<and>
   price_conversion ''1.99'' = ''1''"
proof -
  have whole: "CHR ''.'' \<notin> set s \<longrightarrow> price_conversion s = filter is_digit s"
  proof
    assume "CHR ''.'' \<notin> set s"
    then have "takeWhile (\<lambda>c. c \<noteq> CHR ''.'') s = s"
      by (intro takeWhile_eq_all_conv[THEN iffD2]) auto
    then show "price_conversion s = filter is_digit s"
      by (simp only: price_conversion_takeWhile)
  qed
  have e1: "price_conversion (''5'' @ [CHR 0x27] @ ''990.00 '' @ rub @ ''.'') = ''5990''"
    by (simp add: price_conversion_takeWhile is_digit_def rub_def)
  have e2: "price_conversion ''123'' = ''123''"
    by (simp add: price_conversion_takeWhile is_digit_def)
  have e3: "price_conversion ''1.99'' = ''1''"
    by (simp add: price_conversion_takeWhile is_digit_def)
  from price_conversion_takeWhile[of s] whole e1 e2 e3 show ?thesis
    by (intro conjI)
qed

theorem price_conversion_integer_part_witness:
  "CHR ''.'' \<notin> set ''1234'' \<and> price_conversion ''1234'' = filter is_digit ''1234'' \<and>
   price_conversion ''12.75'' = ''12''"
proof -
  have h: "CHR ''.'' \<notin> set ''1234''" by simp
  have a: "price_conversion ''1234'' = filter is_digit ''1234''"
    using price_conversion_integer_part[of "''1234''"] h by blast
  have b: "price_conversion ''12.75'' = ''12''"
    by (simp add: price_conversion_takeWhile is_digit_def)
  from h a b show ?thesis by (intro conjI)
qed

text \<open>
  C9. \<open>price_conversion\<close> cannot fail on a string (the only partial step, the index
  \<open>[0]\<close>, is applied to a list that is never empty) and its result holds decimal digits
  only; the result can be empty, as for the currency word followed by a full stop, and
  then \<open>int\<close> raises \<open>ValueError\<close> in the Yandex \<open>create_prices\<close>, while the Ozon
  \<open>create_prices\<close> sends the empty string.
\<close>

theorem price_conversion_digits_possibly_empty:
  "split_chr (CHR ''.'') s \<noteq> [] \<and>
   list_all is_digit (price_conversion s) \<and>
   price_conversion (rub @ ''.'') = [] \<and>
   py_int (CStr (price_conversion (rub @ ''.''))) = Inl ValueError \<and>
   market_create_prices
     [\<lparr>Kod = CStr ''A'', Kolichestvo = CStr ''5'', Tsena = CStr (rub @ ''.'')\<rparr>] [''A'']
     = (Inl ValueError, [''A'']) \<and>
   fst (create_prices
     [\<lparr>Kod = CStr ''A'', Kolichestvo = CStr ''5'', Tsena = CStr (rub @ ''.'')\<rparr>] [''A''])
     = Inr [\<lparr>auto_action_enabled = ''UNKNOWN'', currency_code = ''RUB'',
             price_offer_id = ''A'', old_price = ''0'', price_text = []\<rparr>]"
proof -
  have e: "price_conversion (rub @ ''.'') = []"
    by (simp add: price_conversion_takeWhile is_digit_def rub_def)
  have i: "int_of_str [] = Inl ValueError"
    by (simp add: int_of_str_def strip_def)
  have d: "list_all is_digit (price_conversion s)"
    by (simp add: price_conversion_takeWhile list_all_iff)
  have pi: "py_int (CStr (price_conversion (rub @ ''.''))) = Inl ValueError"
    by (simp add: e i)
  have m: "market_create_prices
     [\<lparr>Kod = CStr ''A'', Kolichestvo = CStr ''5'', Tsena = CStr (rub @ ''.'')\<rparr>] [''A'']
     = (Inl ValueError, [''A''])"
    by (simp add: market_create_prices_def e i)
  have o: "fst (create_prices
     [\<lparr>Kod = CStr ''A'', Kolichestvo = CStr ''5'', Tsena = CStr (rub @ ''.'')\<rparr>] [''A''])
     = Inr [\<lparr>auto_action_enabled = ''UNKNOWN'', currency_code = ''RUB'',
             price_offer_id = ''A'', old_price = ''0'', price_text = []\<rparr>]"
    by (simp add: create_prices_def e)
  from split_chr_not_Nil[of "CHR ''.''" s] d e pi m o show ?thesis
    by (intro conjI)
qed

section \<open>Properties of divide\<close>

lemma divide_from_concat: "0 < n \<Longrightarrow> concat (divide_from lst n i) = drop i lst"
proof (induction lst n i rule: divide_from.induct)
  case (1 lst n i)
  show ?case
  proof (cases "length lst \<le> i")
    case True
    then show ?thesis by (simp add: divide_from.simps)
  next
    case False
    with 1 have "concat (divide_from lst n (i + n)) = drop (i + n) lst" by simp
    moreover have "take n (drop i lst) @ drop (i + n) lst = drop i lst"
      by (metis add.commute append_take_drop_id drop_drop)
    ultimately show ?thesis using False 1(2)
      by (subst divide_from.simps) simp
  qed
qed

lemma divide_from_length:
  "0 < n \<Longrightarrow> length (divide_from lst n i) = (length lst - i + n - 1) div n"
proof (induction lst n i rule: divide_from.induct)
  case (1 lst n i)
  show ?case
  proof (cases "length lst \<le> i")
    case True
    then show ?thesis using 1(2) by (simp add: divide_from.simps)
  next
    case False
    with 1 have IH: "length (divide_from lst n (i + n)) = (length lst - (i + n) + n - 1) div n"
      by simp
    have "(length lst - i + n - 1) div n = Suc ((length lst - (i + n) + n - 1) div n)"
    proof (cases "length lst - i \<le> n")
      case True
      with False 1(2) have "(length lst - i + n - 1) div n = 1"
        by (intro div_nat_eqI) auto
      moreover from True 1(2) have "(length lst - (i + n) + n - 1) div n = 0" by simp
      ultimately show ?thesis by simp
    next
      case F2: False
      define m where "m = length lst - (i + n) + n - 1"
      from F2 have e: "length lst - i + n - 1 = m + n" by (simp add: m_def)
      have "(m + n) div n = Suc (m div n)"
        using 1(2) by (simp add: div_add_self2)
      then show ?thesis unfolding e m_def .
    qed
    then show ?thesis using False 1(2) IH
      by (subst divide_from.simps) simp
  qed
qed

lemma divide_from_nth:
  "0 < n \<Longrightarrow> k < length (divide_from lst n i) \<Longrightarrow>
   divide_from lst n i ! k = take n (drop (i + k * n) lst)"
proof (induction lst n i arbitrary: k rule: divide_from.induct)
  case (1 lst n i)
  show ?case
  proof (cases "length lst \<le> i")
    case True
    with 1(3) show ?thesis by (simp add: divide_from.simps)
  next
    case False
    have unf: "divide_from lst n i = take n (drop i lst) # divide_from lst n (i + n)"
      using False 1(2) by (subst divide_from.simps) simp
    show ?thesis
    proof (cases k)
      case 0
      then show ?thesis by (simp add: unf)
    next
      case (Suc j)
      with 1(3) unf have "j < length (divide_from lst n (i + n))" by simp
      with 1(1)[of j] False 1(2) have "divide_from lst n (i + n) ! j = take n (drop (i + n + j * n) lst)"
        by simp
      then show ?thesis using Suc by (simp add: unf add.assoc)
    qed
  qed
qed

lemma chunk_count_bound:
  assumes "0 < (n::nat)" "Suc k < (len + n - 1) div n"
  shows "Suc k * n \<le> len"
proof -
  from assms(2) have "Suc (Suc k) \<le> (len + n - 1) div n" by simp
  then have "Suc (Suc k) * n \<le> ((len + n - 1) div n) * n" by (rule mult_le_mono1)
  also have "\<dots> \<le> len + n - 1" by (simp add: div_times_less_eq_dividend)
  finally have "Suc k * n + n \<le> len + n - 1" by simp
  with assms(1) show ?thesis by simp
qed

lemma last_chunk_size:
  assumes "0 < (n::nat)" "0 < len"
  shows "len - ((len + n - 1) div n - 1) * n = (if len mod n = 0 then n else len mod n)"
proof -
  define q where "q = len div n"
  define r where "r = len mod n"
  have len: "len = q * n + r" by (simp add: q_def r_def)
  have rn: "r < n" using assms(1) by (simp add: r_def)
  show ?thesis
  proof (cases "r = 0")
    case True
    with len assms(2) have q: "0 < q" by (cases q) auto
    have "(q * n + n - 1) div n = q"
      using assms(1) by (intro div_nat_eqI) (auto simp: algebra_simps)
    with True len q have "len - ((len + n - 1) div n - 1) * n = q * n - (q - 1) * n" by simp
    also have "\<dots> = n" using q by (cases q) auto
    finally show ?thesis using True by (simp add: r_def)
  next
    case False
    have "(q * n + r + n - 1) div n = Suc q"
      using assms(1) rn False by (intro div_nat_eqI) (auto simp: algebra_simps)
    with len have "len - ((len + n - 1) div n - 1) * n = r" by simp
    then show ?thesis using False by (simp add: r_def)
  qed
qed

text \<open>
  C4. For a positive \<open>n\<close>, \<open>divide\<close> ends without an exception; its chunks,
  concatenated, are the list; chunk \<open>k\<close> is the slice of length at most \<open>n\<close> that
  starts at \<open>k * n\<close>; every chunk but the last has length \<open>n\<close>, and the last has
  \<open>len mod n\<close> elements, or \<open>n\<close> when \<open>n\<close> divides the length. A list of 2500
  elements gives chunks of 1000, 1000 and 500 elements for \<open>n = 1000\<close>.
\<close>

theorem divide_chunks:
  assumes "0 < n"
  shows "snd (divide lst n) = None \<and>
         concat (fst (divide lst n)) = lst \<and>
         length (fst (divide lst n)) = (length lst + nat n - 1) div nat n \<and>
         (\<forall>k < length (fst (divide lst n)).
            fst (divide lst n) ! k = take (nat n) (drop (k * nat n) lst)) \<and>
         (\<forall>k. Suc k < length (fst (divide lst n)) \<longrightarrow>
            length (fst (divide lst n) ! k) = nat n) \<and>
         (lst \<noteq> [] \<longrightarrow>
            length (last (fst (divide lst n))) =
              (if length lst mod nat n = 0 then nat n else length lst mod nat n)) \<and>
         (length lst = 2500 \<longrightarrow> map length (fst (divide lst 1000)) = [1000, 1000, 500])"
proof -
  define m where "m = nat n"
  define cs where "cs = divide_from lst m 0"
  from assms have m: "0 < m" by (simp add: m_def)
  from assms have d: "divide lst n = (cs, None)" by (simp add: divide_def cs_def m_def)
  have len: "length cs = (length lst + m - 1) div m"
    using divide_from_length[OF m, of lst 0] by (simp add: cs_def)
  have nth: "cs ! k = take m (drop (k * m) lst)" if "k < length cs" for k
    using divide_from_nth[OF m, of k lst 0] that by (simp add: cs_def)
  have c: "concat cs = lst"
    using divide_from_concat[OF m, of lst 0] by (simp add: cs_def)
  have full: "length (cs ! k) = m" if "Suc k < length cs" for k
  proof -
    from that len have "Suc k * m \<le> length lst"
      using chunk_count_bound[OF m, of k "length lst"] by simp
    then have "m \<le> length lst - k * m" by simp
    moreover from that have "k < length cs" by simp
    ultimately show ?thesis by (simp add: nth)
  qed
  have lastc: "length (last cs) = (if length lst mod m = 0 then m else length lst mod m)"
    if "lst \<noteq> []"
  proof -
    from that have pos: "0 < length lst" by simp
    then have "m \<le> length lst + m - 1" by linarith
    with m have "0 < (length lst + m - 1) div m" by (simp only: div_greater_zero_iff)
    with len have "0 < length cs" by simp
    then have ne: "cs \<noteq> []" by auto
    then have "last cs = cs ! (length cs - 1)" by (rule last_conv_nth)
    also have "\<dots> = take m (drop ((length cs - 1) * m) lst)"
      using ne by (intro nth) simp
    finally have "length (last cs) = min (length lst - (length cs - 1) * m) m" by simp
    also have "length lst - (length cs - 1) * m = (if length lst mod m = 0 then m else length lst mod m)"
      unfolding len by (rule last_chunk_size[OF m pos])
    also have "min (if length lst mod m = 0 then m else length lst mod m) m =
               (if length lst mod m = 0 then m else length lst mod m)"
      using m by (simp add: min_def less_imp_le)
    finally show ?thesis .
  qed
  have ex: "map length (fst (divide lst 1000)) = [1000, 1000, 500]" if "length lst = 2500"
    using that by (simp add: divide_def divide_from.simps[of lst 1000])
  show ?thesis
    unfolding d fst_conv snd_conv m_def[symmetric]
    using c len nth full lastc ex by blast
qed

theorem divide_chunks_witness:
  "(0::int) < 2 \<and> divide [1, 2, 3, 4, 5 :: nat] 2 = ([[1, 2], [3, 4], [5]], None) \<and>
   concat (fst (divide [1, 2, 3, 4, 5 :: nat] 2)) = [1, 2, 3, 4, 5] \<and>
   length (last (fst (divide [1, 2, 3, 4, 5 :: nat] 2))) = 1 \<and>
   map length (fst (divide (replicate 2500 (0::nat)) 1000)) = [1000, 1000, 500]"
proof -
  have h: "(0::int) < 2" by simp
  have d: "divide [1, 2, 3, 4, 5 :: nat] 2 = ([[1, 2], [3, 4], [5]], None)"
    by (simp add: divide_def divide_from.simps[of _ 2])
  show ?thesis
    using h d divide_chunks[OF h, of "[1, 2, 3, 4, 5 :: nat]"]
      divide_chunks[OF h, of "replicate 2500 (0::nat)"]
    by simp
qed

text \<open>
  C8. For \<open>n = 0\<close>, \<open>divide\<close> raises \<open>ValueError\<close> before it yields a chunk; for a
  negative \<open>n\<close> it yields no chunk and raises nothing, whatever the list holds.
\<close>

theorem divide_nonpositive:
  "divide lst 0 = ([], Some ValueError) \<and> (n < 0 \<longrightarrow> divide lst n = ([], None))"
  by (simp add: divide_def)

theorem divide_nonpositive_witness:
  "(-2::int) < 0 \<and> divide [1, 2, 3 :: nat] (-2) = ([], None) \<and>
   divide [1, 2, 3 :: nat] 0 = ([], Some ValueError)"
  using divide_nonpositive[of "[1, 2, 3 :: nat]" "-2"] by simp

end
